theory Spec2Isabelle
  imports Complex_Main
begin

section \<open>Pooling computations of metapool.py\<close>

text \<open>
  The module works on numpy arrays of double-precision numbers. A number is modelled by
  the type \<open>fval\<close>: a finite value carries an exact real, and the three special values
  of IEEE arithmetic (not-a-number and the two infinities) are constructors of their own.
  Arithmetic on finite values is exact: rounding, overflow, underflow and the sign of zero
  are not part of the model (a zero divisor counts as positive zero). What the model does
  keep is everything the special values do: a comparison with NaN is false, a finite
  non-zero value divided by zero is an infinity, and zero times infinity, zero divided by
  zero and infinity minus infinity are NaN. numpy performs these operations with a
  warning and without raising; Python's own \<open>/\<close> on a Python number raises
  ZeroDivisionError instead, and the model keeps the two apart.
\<close>

datatype fval = Fin real | PInf | NInf | NaN

datatype error = ZeroDivisionError | ValueError | IndexError

type_synonym matrix = "fval list list"

fun fadd :: "fval \<Rightarrow> fval \<Rightarrow> fval" where
  "fadd NaN _ = NaN"
| "fadd _ NaN = NaN"
| "fadd (Fin a) (Fin b) = Fin (a + b)"
| "fadd (Fin a) PInf = PInf"
| "fadd (Fin a) NInf = NInf"
| "fadd PInf (Fin b) = PInf"
| "fadd NInf (Fin b) = NInf"
| "fadd PInf PInf = PInf"
| "fadd NInf NInf = NInf"
| "fadd PInf NInf = NaN"
| "fadd NInf PInf = NaN"

fun fmul :: "fval \<Rightarrow> fval \<Rightarrow> fval" where
  "fmul NaN _ = NaN"
| "fmul _ NaN = NaN"
| "fmul (Fin a) (Fin b) = Fin (a * b)"
| "fmul (Fin a) PInf = (if a = 0 then NaN else if 0 < a then PInf else NInf)"
| "fmul (Fin a) NInf = (if a = 0 then NaN else if 0 < a then NInf else PInf)"
| "fmul PInf (Fin b) = (if b = 0 then NaN else if 0 < b then PInf else NInf)"
| "fmul NInf (Fin b) = (if b = 0 then NaN else if 0 < b then NInf else PInf)"
| "fmul PInf PInf = PInf"
| "fmul NInf NInf = PInf"
| "fmul PInf NInf = NInf"
| "fmul NInf PInf = NInf"

text \<open>numpy's division: a zero divisor gives an infinity or NaN, never an exception.\<close>

fun fdiv :: "fval \<Rightarrow> fval \<Rightarrow> fval" where
  "fdiv NaN _ = NaN"
| "fdiv _ NaN = NaN"
| "fdiv (Fin a) (Fin b) =
     (if b \<noteq> 0 then Fin (a / b)
      else if a = 0 then NaN else if 0 < a then PInf else NInf)"
| "fdiv (Fin a) PInf = Fin 0"
| "fdiv (Fin a) NInf = Fin 0"
| "fdiv PInf (Fin b) = (if 0 \<le> b then PInf else NInf)"
| "fdiv NInf (Fin b) = (if 0 \<le> b then NInf else PInf)"
| "fdiv PInf PInf = NaN"
| "fdiv NInf NInf = NaN"
| "fdiv PInf NInf = NaN"
| "fdiv NInf PInf = NaN"

text \<open>The comparisons \<open><=\<close>, \<open><\<close> and \<open>>\<close>: false as soon as one side is NaN.\<close>

fun fle :: "fval \<Rightarrow> fval \<Rightarrow> bool" where
  "fle NaN _ = False"
| "fle _ NaN = False"
| "fle (Fin a) (Fin b) = (a \<le> b)"
| "fle NInf _ = True"
| "fle _ PInf = True"
| "fle PInf _ = False"
| "fle _ NInf = False"

fun flt :: "fval \<Rightarrow> fval \<Rightarrow> bool" where
  "flt NaN _ = False"
| "flt _ NaN = False"
| "flt (Fin a) (Fin b) = (a < b)"
| "flt PInf _ = False"
| "flt _ NInf = False"
| "flt NInf _ = True"
| "flt _ PInf = True"

definition fgt :: "fval \<Rightarrow> fval \<Rightarrow> bool" where
  "fgt a b = flt b a"

text \<open>\<open>a.sum()\<close> over all the elements of an array; the sum of no element is 0.\<close>

primrec fsum :: "fval list \<Rightarrow> fval" where
  "fsum [] = Fin 0"
| "fsum (x # xs) = fadd x (fsum xs)"

text \<open>
  A two-dimensional array is the list of its rows. \<open>a.size\<close> is the number of elements,
  \<open>a.shape\<close> the number of rows and of columns; numpy arrays are rectangular, which the
  predicate \<open>rectangular\<close> says of a list of rows. (An array without rows has no column
  count in this representation.)
\<close>

definition size_of :: "matrix \<Rightarrow> nat" where
  "size_of a = length (concat a)"

definition nrows :: "matrix \<Rightarrow> nat" where
  "nrows a = length a"

definition ncols :: "matrix \<Rightarrow> nat" where
  "ncols a = (case a of [] \<Rightarrow> 0 | r # _ \<Rightarrow> length r)"

definition rectangular :: "matrix \<Rightarrow> bool" where
  "rectangular a = list_all (\<lambda>r. length r = ncols a) a"

definition same_shape :: "matrix \<Rightarrow> matrix \<Rightarrow> bool" where
  "same_shape a b = (map length a = map length b)"

definition scalar_mul :: "fval \<Rightarrow> matrix \<Rightarrow> matrix" where
  "scalar_mul k a = map (map (\<lambda>x. fmul x k)) a"

subsection \<open>compute_shotgun_pooling_values_eqvol\<close>


subsection \<open>compute_shotgun_pooling_values_qpcr\<close>

text \<open>
  The steps of the function, in the order of the source. \<open>default_fracs\<close> is
  \<open>np.ones(shape) / size\<close>; \<open>mask_below\<close> is the assignment
  \<open>sample_fracs_pass[sample_concs <= min_conc] = 0\<close>; \<open>renormalize\<close> is
  \<open>sample_fracs_pass *= 1/sample_fracs_pass.sum()\<close>, where the sum is a numpy scalar, so
  that a zero sum gives an infinite factor and no exception; \<open>floor_concs\<close> is
  \<open>sample_concs_floor[sample_concs < floor_conc] = floor_conc\<close>.
\<close>

definition default_fracs :: "matrix \<Rightarrow> matrix" where
  "default_fracs sample_concs =
     map (map (\<lambda>_. fdiv (Fin 1) (Fin (real (size_of sample_concs))))) sample_concs"

definition mask_below :: "fval \<Rightarrow> matrix \<Rightarrow> matrix \<Rightarrow> matrix" where
  "mask_below min_conc sample_concs sample_fracs =
     map2 (map2 (\<lambda>c f. if fle c min_conc then Fin 0 else f)) sample_concs sample_fracs"

definition renormalize :: "matrix \<Rightarrow> matrix" where
  "renormalize fracs = scalar_mul (fdiv (Fin 1) (fsum (concat fracs))) fracs"

definition floor_concs :: "fval \<Rightarrow> matrix \<Rightarrow> matrix" where
  "floor_concs floor_conc sample_concs =
     map (map (\<lambda>c. if flt c floor_conc then floor_conc else c)) sample_concs"

definition sample_fracs_pass :: "matrix \<Rightarrow> matrix option \<Rightarrow> fval \<Rightarrow> matrix" where
  "sample_fracs_pass sample_concs sample_fracs min_conc =
     renormalize (mask_below min_conc sample_concs
       (case sample_fracs of None \<Rightarrow> default_fracs sample_concs | Some f \<Rightarrow> f))"

text \<open>
  A \<open>sample_fracs\<close> of another shape than \<open>sample_concs\<close> makes the boolean-mask
  assignment raise IndexError. The last two steps are
  \<open>(total_nmol * sample_fracs_pass) / sample_concs_floor\<close> and the conversion
  \<open>sample_vols *= 10**9\<close>.
\<close>

definition compute_shotgun_pooling_values_qpcr ::
  "matrix \<Rightarrow> matrix option \<Rightarrow> fval \<Rightarrow> fval \<Rightarrow> fval \<Rightarrow> error + matrix" where
  "compute_shotgun_pooling_values_qpcr sample_concs sample_fracs min_conc floor_conc total_nmol =
     (if (case sample_fracs of None \<Rightarrow> False | Some f \<Rightarrow> \<not> same_shape f sample_concs)
      then Inl IndexError
      else
        let fracs_pass = sample_fracs_pass sample_concs sample_fracs min_conc;
            sample_concs_floor = floor_concs floor_conc sample_concs;
            sample_vols = map2 (map2 (\<lambda>f c. fdiv (fmul total_nmol f) c))
                            fracs_pass sample_concs_floor
        in Inr (scalar_mul (Fin (10 ^ 9)) sample_vols))"

text \<open>The default arguments \<open>min_conc=10, floor_conc=50, total_nmol=.01\<close>.\<close>

definition qpcr_default :: "matrix \<Rightarrow> error + matrix" where
  "qpcr_default sample_concs =
     compute_shotgun_pooling_values_qpcr sample_concs None (Fin 10) (Fin 50) (Fin (1 / 100))"

subsection \<open>estimate_pool_conc_vol\<close>

text \<open>
  \<open>np.multiply\<close> broadcasts: two dimensions fit when they are equal or one of them is 1,
  and shapes that do not fit raise ValueError.
\<close>

definition bc_dim :: "nat \<Rightarrow> nat \<Rightarrow> nat option" where
  "bc_dim m n = (if m = n then Some m else if m = 1 then Some n else if n = 1 then Some m else None)"

definition stretch :: "nat \<Rightarrow> nat \<Rightarrow> matrix \<Rightarrow> matrix" where
  "stretch r c a =
     (let a' = map (\<lambda>row. if length row = c then row else concat (replicate c row)) a
      in if length a' = r then a' else concat (replicate r a'))"

definition np_multiply :: "matrix \<Rightarrow> matrix \<Rightarrow> error + matrix" where
  "np_multiply a b =
     (case bc_dim (nrows a) (nrows b) of
        None \<Rightarrow> Inl ValueError
      | Some r \<Rightarrow>
          (case bc_dim (ncols a) (ncols b) of
             None \<Rightarrow> Inl ValueError
           | Some c \<Rightarrow> Inr (map2 (map2 fmul) (stretch r c a) (stretch r c b))))"

text \<open>
  \<open>nl_scalar = 10**-9\<close>; the total is \<open>sample_vols.sum()\<close> and the concentration
  \<open>total_pmols.sum() / (total_vol * nl_scalar)\<close>, a division of numpy scalars.
\<close>

definition estimate_pool_conc_vol :: "matrix \<Rightarrow> matrix \<Rightarrow> error + (fval \<times> fval)" where
  "estimate_pool_conc_vol sample_vols sample_concs =
     (case np_multiply sample_concs sample_vols of
        Inl e \<Rightarrow> Inl e
      | Inr products \<Rightarrow>
          let nl_scalar = Fin (1 / 10 ^ 9);
              total_pmols = scalar_mul nl_scalar products;
              total_vol = fsum (concat sample_vols);
              pool_conc = fdiv (fsum (concat total_pmols)) (fmul total_vol nl_scalar)
          in Inr (pool_conc, total_vol))"

subsection \<open>format_pooling_echo_pick_list\<close>

text \<open>
  Text: \<open>"%d"\<close> of an int, \<open>"%.2f"\<close> of a number (the special values print as
  \<open>nan\<close>, \<open>inf\<close> and \<open>-inf\<close>; a finite value is rounded to two decimals, a tie going
  to the even neighbour), \<open>chr\<close> (ValueError outside the code points; a code point is
  written in UTF-8) and \<open>sep.join\<close>.
\<close>

definition digit :: "nat \<Rightarrow> char" where
  "digit n = ''0123456789'' ! n"

function str_nat :: "nat \<Rightarrow> string" where
  "str_nat n = (if n < 10 then [digit n] else str_nat (n div 10) @ [digit (n mod 10)])"
  by pat_completeness auto
termination
  by (relation "measure id") auto

declare str_nat.simps [simp del]

definition str_int :: "int \<Rightarrow> string" where
  "str_int n = (if n < 0 then ''-'' @ str_nat (nat (- n)) else str_nat (nat n))"

definition round_half_even :: "real \<Rightarrow> int" where
  "round_half_even x =
     (let f = \<lfloor>x\<rfloor>; r = x - of_int f
      in if r < 1 / 2 then f else if 1 / 2 < r then f + 1 else if even f then f else f + 1)"

definition fmt_2f :: "fval \<Rightarrow> string" where
  "fmt_2f v =
     (case v of
        NaN \<Rightarrow> ''nan''
      | PInf \<Rightarrow> ''inf''
      | NInf \<Rightarrow> ''-inf''
      | Fin x \<Rightarrow>
          (let n = nat (round_half_even (\<bar>x\<bar> * 100))
           in (if x < 0 then ''-'' else []) @ str_nat (n div 100) @ ''.'' @
              [digit (n mod 100 div 10), digit (n mod 10)]))"

definition utf8 :: "int \<Rightarrow> string" where
  "utf8 n =
     (if n < 0x80 then [char_of n]
      else if n < 0x800 then [char_of (0xC0 + n div 64), char_of (0x80 + n mod 64)]
      else if n < 0x10000 then
        [char_of (0xE0 + n div 4096), char_of (0x80 + n div 64 mod 64), char_of (0x80 + n mod 64)]
      else
        [char_of (0xF0 + n div 262144), char_of (0x80 + n div 4096 mod 64),
         char_of (0x80 + n div 64 mod 64), char_of (0x80 + n mod 64)])"

definition py_chr :: "int \<Rightarrow> error + string" where
  "py_chr n = (if n < 0 \<or> 0x10FFFF < n then Inl ValueError else Inr (utf8 n))"

fun join :: "string \<Rightarrow> string list \<Rightarrow> string" where
  "join sep [] = []"
| "join sep [x] = x"
| "join sep (x # y # ys) = x @ sep @ join sep (y # ys)"

definition get_item :: "int list \<Rightarrow> nat \<Rightarrow> error + int" where
  "get_item xs i = (if i < length xs then Inr (xs ! i) else Inl IndexError)"

definition bind_err :: "error + 'a \<Rightarrow> ('a \<Rightarrow> error + 'b) \<Rightarrow> error + 'b" where
  "bind_err x f = (case x of Inl e \<Rightarrow> Inl e | Inr y \<Rightarrow> f y)"

text \<open>
  The test on the running total: \<open>if running_tot + vol > max_vol_per_well\<close> moves to the
  next destination index and restarts the total at this volume; otherwise the volume is
  added. The state is the pair \<open>(running_tot, d)\<close>.
\<close>

definition rollover :: "fval \<Rightarrow> fval \<times> int \<Rightarrow> fval \<Rightarrow> fval \<times> int" where
  "rollover max_vol_per_well st vol =
     (case st of (running_tot, d) \<Rightarrow>
        if fgt (fadd running_tot vol) max_vol_per_well then (vol, d + 1)
        else (fadd running_tot vol, d))"

text \<open>
  \<open>dest = "%s%d" % (chr(ord('A') + int(np.floor(d/dest_plate_shape[0]))),
  (d % dest_plate_shape[1]))\<close>, with the errors in the order of evaluation.
\<close>

definition dest_well :: "int \<Rightarrow> int list \<Rightarrow> error + string" where
  "dest_well d dest_plate_shape =
     bind_err (get_item dest_plate_shape 0) (\<lambda>r.
       if r = 0 then Inl ZeroDivisionError
       else bind_err (py_chr (65 + \<lfloor>real_of_int d / real_of_int r\<rfloor>)) (\<lambda>letter.
         bind_err (get_item dest_plate_shape 1) (\<lambda>c.
           if c = 0 then Inl ZeroDivisionError
           else Inr (letter @ str_int (d mod c)))))"

record pick_entry =
  source_well :: string
  transfer_volume :: string
  destination_well :: string

text \<open>The body of the inner loop, for the well in row \<open>i\<close> and column \<open>j\<close>.\<close>

definition pick_well ::
  "fval \<Rightarrow> int list \<Rightarrow> nat \<Rightarrow> nat \<Rightarrow> fval \<Rightarrow> fval \<times> int \<Rightarrow> error + (pick_entry \<times> (fval \<times> int))" where
  "pick_well max_vol_per_well dest_plate_shape i j vol st =
     bind_err (py_chr (65 + int i)) (\<lambda>letter.
       let well_name = letter @ str_int (int j + 1);
           val = fmt_2f vol;
           st' = rollover max_vol_per_well st vol
       in bind_err (dest_well (snd st') dest_plate_shape) (\<lambda>dest.
            Inr (\<lparr>source_well = well_name, transfer_volume = val, destination_well = dest\<rparr>,
                 st')))"

fun pick_row ::
  "fval \<Rightarrow> int list \<Rightarrow> nat \<Rightarrow> nat \<Rightarrow> fval list \<Rightarrow> fval \<times> int \<Rightarrow>
   error + (pick_entry list \<times> (fval \<times> int))" where
  "pick_row mx shp i j [] st = Inr ([], st)"
| "pick_row mx shp i j (vol # vols) st =
     bind_err (pick_well mx shp i j vol st) (\<lambda>(e, st').
       bind_err (pick_row mx shp i (Suc j) vols st') (\<lambda>(es, st'').
         Inr (e # es, st'')))"

fun pick_rows ::
  "fval \<Rightarrow> int list \<Rightarrow> nat \<Rightarrow> matrix \<Rightarrow> fval \<times> int \<Rightarrow>
   error + (pick_entry list \<times> (fval \<times> int))" where
  "pick_rows mx shp i [] st = Inr ([], st)"
| "pick_rows mx shp i (row # rows) st =
     bind_err (pick_row mx shp i 0 row st) (\<lambda>(es, st').
       bind_err (pick_rows mx shp (Suc i) rows st') (\<lambda>(es', st'').
         Inr (es @ es', st'')))"

text \<open>The loops start from \<open>running_tot = 0\<close> and \<open>d = 1\<close>.\<close>

definition pick_entries :: "matrix \<Rightarrow> fval \<Rightarrow> int list \<Rightarrow> error + pick_entry list" where
  "pick_entries vol_sample max_vol_per_well dest_plate_shape =
     bind_err (pick_rows max_vol_per_well dest_plate_shape 0 vol_sample (Fin 0, 1))
       (\<lambda>(es, _). Inr es)"

definition header :: string where
  "header = ''Source Plate Name,Source Plate Type,Source Well,'' @
            ''Concentration,Transfer Volume,Destination Plate Name,'' @
            ''Destination Well''"

definition entry_line :: "pick_entry \<Rightarrow> string" where
  "entry_line e =
     join '','' [''1'', ''384LDV_AQ_B2_HT'', source_well e, [], transfer_volume e,
                ''NormalizedDNA'', destination_well e]"

definition format_pooling_echo_pick_list :: "matrix \<Rightarrow> fval \<Rightarrow> int list \<Rightarrow> error + string" where
  "format_pooling_echo_pick_list vol_sample max_vol_per_well dest_plate_shape =
     bind_err (pick_entries vol_sample max_vol_per_well dest_plate_shape) (\<lambda>es.
       Inr (join [CHR 0x0A] (header # map entry_line es)))"

text \<open>The destination wells and the volume fields of a pick list, in the order of the wells.\<close>

definition destination_wells :: "matrix \<Rightarrow> fval \<Rightarrow> int list \<Rightarrow> error + string list" where
  "destination_wells vol_sample max_vol_per_well dest_plate_shape =
     bind_err (pick_entries vol_sample max_vol_per_well dest_plate_shape) (\<lambda>es.
       Inr (map destination_well es))"

definition transfer_volumes :: "matrix \<Rightarrow> fval \<Rightarrow> int list \<Rightarrow> error + string list" where
  "transfer_volumes vol_sample max_vol_per_well dest_plate_shape =
     bind_err (pick_entries vol_sample max_vol_per_well dest_plate_shape) (\<lambda>es.
       Inr (map transfer_volume es))"

text \<open>
  The transition rule of the pick list, stated on the row-major sequence of the wells:
  the successive states \<open>(running_tot, d)\<close> reached after each well.
\<close>

fun rollover_states :: "fval \<Rightarrow> fval \<times> int \<Rightarrow> fval list \<Rightarrow> (fval \<times> int) list" where
  "rollover_states mx st [] = []"
| "rollover_states mx st (vol # vols) =
     rollover mx st vol # rollover_states mx (rollover mx st vol) vols"



subsection \<open>Quantities of the specification\<close>



section \<open>Properties\<close>

text \<open>
  C1. On the concentrations [[1,12,400],[200,40,1]] with the default parameters the
  function returns the volumes [[0,50000,6250],[12500,50000,0]]: the wells at or below
  min_conc have fraction 0, the four passing wells share the fractions (1/4 each), and
  the wells below floor_conc are dosed at floor_conc.
\<close>

theorem qpcr_example_volumes:
  "qpcr_default [[Fin 1, Fin 12, Fin 400], [Fin 200, Fin 40, Fin 1]] =
     Inr [[Fin 0, Fin 50000, Fin 6250], [Fin 12500, Fin 50000, Fin 0]]
   \<and> sample_fracs_pass [[Fin 1, Fin 12, Fin 400], [Fin 200, Fin 40, Fin 1]] None (Fin 10) =
     [[Fin 0, Fin (1 / 4), Fin (1 / 4)], [Fin (1 / 4), Fin (1 / 4), Fin 0]]
   \<and> floor_concs (Fin 50) [[Fin 1, Fin 12, Fin 400], [Fin 200, Fin 40, Fin 1]] =
     [[Fin 50, Fin 50, Fin 400], [Fin 200, Fin 50, Fin 50]]"
  by (simp add: qpcr_default_def compute_shotgun_pooling_values_qpcr_def sample_fracs_pass_def
      renormalize_def mask_below_def default_fracs_def floor_concs_def scalar_mul_def size_of_def)


subsection \<open>The pick list\<close>

lemmas pick_defs = pick_entries_def pick_well_def bind_err_def rollover_def dest_well_def
  get_item_def py_chr_def utf8_def str_int_def str_nat.simps digit_def fmt_2f_def
  round_half_even_def fgt_def char_of_def destination_wells_def transfer_volumes_def

text \<open>
  The two nested loops are one pass over the wells in row-major order: every entry's
  destination is the label of the index reached by the transition rule after that well,
  and its volume field is the formatted volume.
\<close>

lemma pick_row_states:
  "pick_row mx shp i j vols st = Inr (es, st') \<Longrightarrow>
     map (\<lambda>e. Inr (destination_well e)) es =
       map (\<lambda>s. dest_well (snd s) shp) (rollover_states mx st vols)
     \<and> map transfer_volume es = map fmt_2f vols
     \<and> st' = foldl (rollover mx) st vols"
proof (induction vols arbitrary: j st es st')
  case Nil
  then show ?case by simp
next
  case (Cons vol vols)
  from Cons.prems obtain e s1 es1 where
    w: "pick_well mx shp i j vol st = Inr (e, s1)" and
    r: "pick_row mx shp i (Suc j) vols s1 = Inr (es1, st')" and
    es: "es = e # es1"
    by (auto simp: bind_err_def split: sum.splits prod.splits)
  from w have s1: "s1 = rollover mx st vol"
    and d: "dest_well (snd (rollover mx st vol)) shp = Inr (destination_well e)"
    and v: "transfer_volume e = fmt_2f vol"
    by (auto simp: pick_well_def bind_err_def Let_def split: sum.splits)
  from Cons.IH [OF r] s1 d v es show ?case by simp
qed

lemma rollover_states_append:
  "rollover_states mx st (xs @ ys) =
     rollover_states mx st xs @ rollover_states mx (foldl (rollover mx) st xs) ys"
  by (induction xs arbitrary: st) simp_all

lemma pick_rows_states:
  "pick_rows mx shp i rows st = Inr (es, st') \<Longrightarrow>
     map (\<lambda>e. Inr (destination_well e)) es =
       map (\<lambda>s. dest_well (snd s) shp) (rollover_states mx st (concat rows))
     \<and> map transfer_volume es = map fmt_2f (concat rows)
     \<and> st' = foldl (rollover mx) st (concat rows)"
proof (induction rows arbitrary: i st es st')
  case Nil
  then show ?case by simp
next
  case (Cons row rows)
  from Cons.prems obtain es1 s1 es2 where
    a: "pick_row mx shp i 0 row st = Inr (es1, s1)" and
    b: "pick_rows mx shp (Suc i) rows s1 = Inr (es2, st')" and
    es: "es = es1 @ es2"
    by (auto simp: bind_err_def split: sum.splits prod.splits)
  from pick_row_states [OF a] Cons.IH [OF b] es show ?case
    by (simp add: rollover_states_append)
qed

lemma pick_entries_states:
  assumes "pick_entries vol_sample mx shp = Inr es"
  shows "map (\<lambda>e. Inr (destination_well e)) es =
           map (\<lambda>s. dest_well (snd s) shp) (rollover_states mx (Fin 0, 1) (concat vol_sample))"
    and "map transfer_volume es = map fmt_2f (concat vol_sample)"
proof -
  from assms obtain st' where "pick_rows mx shp 0 vol_sample (Fin 0, 1) = Inr (es, st')"
    by (auto simp: pick_entries_def bind_err_def split: sum.splits prod.splits)
  from pick_rows_states [OF this]
  show "map (\<lambda>e. Inr (destination_well e)) es =
           map (\<lambda>s. dest_well (snd s) shp) (rollover_states mx (Fin 0, 1) (concat vol_sample))"
    and "map transfer_volume es = map fmt_2f (concat vol_sample)"
    by simp_all
qed

lemma dest_well_label:
  "r \<noteq> 0 \<Longrightarrow> c \<noteq> 0 \<Longrightarrow> 0 \<le> d div r \<Longrightarrow> d div r < 26 \<Longrightarrow>
   dest_well d [r, c] = Inr (char_of (65 + d div r) # str_int (d mod c))"
  by (simp add: dest_well_def bind_err_def get_item_def py_chr_def utf8_def
      floor_divide_of_int_eq)

text \<open>
  C4. The volumes [10,10,5,5,10,10] with max_vol_per_well = 26 on a 16 x 24 destination
  plate go to the wells A1,A1,A1,A2,A2,A2, and the text is the one the repository's test
  expects. The states after each well show the rule at work: the total reaches 25, the
  fourth well would make it 30 > 26, so the index moves to 2 and the total restarts at 5.
  In general the destinations of a pick list are the labels of the indices that the rule
  (next index and total reset to this volume exactly when running_tot + vol >
  max_vol_per_well, accumulation otherwise) produces along the wells in row-major order.
\<close>

theorem picklist_rollover:
  "destination_wells [[Fin 10, Fin 10, Fin 5, Fin 5, Fin 10, Fin 10]] (Fin 26) [16, 24] =
     Inr [''A1'', ''A1'', ''A1'', ''A2'', ''A2'', ''A2'']
   \<and> format_pooling_echo_pick_list [[Fin 10, Fin 10, Fin 5, Fin 5, Fin 10, Fin 10]]
       (Fin 26) [16, 24] =
     Inr (join [CHR 0x0A] [header,
       ''1,384LDV_AQ_B2_HT,A1,,10.00,NormalizedDNA,A1'',
       ''1,384LDV_AQ_B2_HT,A2,,10.00,NormalizedDNA,A1'',
       ''1,384LDV_AQ_B2_HT,A3,,5.00,NormalizedDNA,A1'',
       ''1,384LDV_AQ_B2_HT,A4,,5.00,NormalizedDNA,A2'',
       ''1,384LDV_AQ_B2_HT,A5,,10.00,NormalizedDNA,A2'',
       ''1,384LDV_AQ_B2_HT,A6,,10.00,NormalizedDNA,A2''])
   \<and> rollover_states (Fin 26) (Fin 0, 1) [Fin 10, Fin 10, Fin 5, Fin 5, Fin 10, Fin 10] =
     [(Fin 10, 1), (Fin 20, 1), (Fin 25, 1), (Fin 5, 2), (Fin 15, 2), (Fin 25, 2)]
   \<and> (\<forall>mx running_tot d vol.
        rollover mx (running_tot, d) vol =
          (if fgt (fadd running_tot vol) mx then (vol, d + 1) else (fadd running_tot vol, d)))
   \<and> (\<forall>vol_sample mx shp es.
        pick_entries vol_sample mx shp = Inr es \<longrightarrow>
        map (\<lambda>e. Inr (destination_well e)) es =
          map (\<lambda>s. dest_well (snd s) shp) (rollover_states mx (Fin 0, 1) (concat vol_sample)))"
proof (intro conjI allI impI)
  show "destination_wells [[Fin 10, Fin 10, Fin 5, Fin 5, Fin 10, Fin 10]] (Fin 26) [16, 24] =
     Inr [''A1'', ''A1'', ''A1'', ''A2'', ''A2'', ''A2'']"
    by (simp add: pick_defs)
  show "format_pooling_echo_pick_list [[Fin 10, Fin 10, Fin 5, Fin 5, Fin 10, Fin 10]]
       (Fin 26) [16, 24] =
     Inr (join [CHR 0x0A] [header,
       ''1,384LDV_AQ_B2_HT,A1,,10.00,NormalizedDNA,A1'',
       ''1,384LDV_AQ_B2_HT,A2,,10.00,NormalizedDNA,A1'',
       ''1,384LDV_AQ_B2_HT,A3,,5.00,NormalizedDNA,A1'',
       ''1,384LDV_AQ_B2_HT,A4,,5.00,NormalizedDNA,A2'',
       ''1,384LDV_AQ_B2_HT,A5,,10.00,NormalizedDNA,A2'',
       ''1,384LDV_AQ_B2_HT,A6,,10.00,NormalizedDNA,A2''])"
    by (simp add: pick_defs format_pooling_echo_pick_list_def entry_line_def)
  show "rollover_states (Fin 26) (Fin 0, 1) [Fin 10, Fin 10, Fin 5, Fin 5, Fin 10, Fin 10] =
     [(Fin 10, 1), (Fin 20, 1), (Fin 25, 1), (Fin 5, 2), (Fin 15, 2), (Fin 25, 2)]"
    by (simp add: rollover_def fgt_def)
  show "rollover mx (running_tot, d) vol =
      (if fgt (fadd running_tot vol) mx then (vol, d + 1) else (fadd running_tot vol, d))"
    for mx running_tot d vol
    by (simp add: rollover_def)
  show "map (\<lambda>e. Inr (destination_well e)) es =
          map (\<lambda>s. dest_well (snd s) shp) (rollover_states mx (Fin 0, 1) (concat vol_sample))"
    if "pick_entries vol_sample mx shp = Inr es" for vol_sample mx shp es
    using that by (rule pick_entries_states)
qed

theorem picklist_rollover_witness:
  "pick_entries [[Fin 10, Fin 10, Fin 5]] (Fin 26) [16, 24] =
     Inr [\<lparr>source_well = ''A1'', transfer_volume = ''10.00'', destination_well = ''A1''\<rparr>,
          \<lparr>source_well = ''A2'', transfer_volume = ''10.00'', destination_well = ''A1''\<rparr>,
          \<lparr>source_well = ''A3'', transfer_volume = ''5.00'', destination_well = ''A1''\<rparr>]
   \<and> [Inr ''A1'', Inr ''A1'', Inr ''A1''] =
       map (\<lambda>s. dest_well (snd s) [16, 24])
         (rollover_states (Fin 26) (Fin 0, 1) (concat [[Fin 10, Fin 10, Fin 5]]))"
proof -
  have e: "pick_entries [[Fin 10, Fin 10, Fin 5]] (Fin 26) [16, 24] =
     Inr [\<lparr>source_well = ''A1'', transfer_volume = ''10.00'', destination_well = ''A1''\<rparr>,
          \<lparr>source_well = ''A2'', transfer_volume = ''10.00'', destination_well = ''A1''\<rparr>,
          \<lparr>source_well = ''A3'', transfer_volume = ''5.00'', destination_well = ''A1''\<rparr>]"
    by (simp add: pick_defs)
  from picklist_rollover have
    "\<forall>vol_sample mx shp es.
        pick_entries vol_sample mx shp = Inr es \<longrightarrow>
        map (\<lambda>e. Inr (destination_well e)) es =
          map (\<lambda>s. dest_well (snd s) shp) (rollover_states mx (Fin 0, 1) (concat vol_sample))"
    by blast
  from this e have
    "map (\<lambda>e. Inr (destination_well e))
       [\<lparr>source_well = ''A1'', transfer_volume = ''10.00'', destination_well = ''A1''\<rparr>,
        \<lparr>source_well = ''A2'', transfer_volume = ''10.00'', destination_well = ''A1''\<rparr>,
        \<lparr>source_well = ''A3'', transfer_volume = ''5.00'', destination_well = ''A1''\<rparr>] =
     map (\<lambda>s. dest_well (snd s) [16, 24])
       (rollover_states (Fin 26) (Fin 0, 1) (concat [[Fin 10, Fin 10, Fin 5]]))"
    by blast
  with e show ?thesis by (simp add: rollover_def fgt_def)
qed

text \<open>
  C2. The code at the input of the repository's test for NaN volumes,
  [10,10,NaN,5,10,10] with max_vol_per_well = 26: the volume field of the third well is
  the text nan, and every well goes to A1, because the running total is NaN from the
  third well on and no comparison with it holds. With 0 in the place of NaN the
  destinations are A1,A1,A1,A1,A2,A2.
\<close>

theorem picklist_nan_example:
  "transfer_volumes [[Fin 10, Fin 10, NaN, Fin 5, Fin 10, Fin 10]] (Fin 26) [16, 24] =
     Inr [''10.00'', ''10.00'', ''nan'', ''5.00'', ''10.00'', ''10.00'']
   \<and> destination_wells [[Fin 10, Fin 10, NaN, Fin 5, Fin 10, Fin 10]] (Fin 26) [16, 24] =
     Inr [''A1'', ''A1'', ''A1'', ''A1'', ''A1'', ''A1'']
   \<and> rollover_states (Fin 26) (Fin 0, 1) [Fin 10, Fin 10, NaN, Fin 5, Fin 10, Fin 10] =
     [(Fin 10, 1), (Fin 20, 1), (NaN, 1), (NaN, 1), (NaN, 1), (NaN, 1)]
   \<and> destination_wells [[Fin 10, Fin 10, Fin 0, Fin 5, Fin 10, Fin 10]] (Fin 26) [16, 24] =
     Inr [''A1'', ''A1'', ''A1'', ''A1'', ''A2'', ''A2'']"
proof (intro conjI)
  show "transfer_volumes [[Fin 10, Fin 10, NaN, Fin 5, Fin 10, Fin 10]] (Fin 26) [16, 24] =
     Inr [''10.00'', ''10.00'', ''nan'', ''5.00'', ''10.00'', ''10.00'']"
    by (simp add: pick_defs)
  show "destination_wells [[Fin 10, Fin 10, NaN, Fin 5, Fin 10, Fin 10]] (Fin 26) [16, 24] =
     Inr [''A1'', ''A1'', ''A1'', ''A1'', ''A1'', ''A1'']"
    by (simp add: pick_defs)
  show "rollover_states (Fin 26) (Fin 0, 1) [Fin 10, Fin 10, NaN, Fin 5, Fin 10, Fin 10] =
     [(Fin 10, 1), (Fin 20, 1), (NaN, 1), (NaN, 1), (NaN, 1), (NaN, 1)]"
    by (simp add: rollover_def fgt_def)
  show "destination_wells [[Fin 10, Fin 10, Fin 0, Fin 5, Fin 10, Fin 10]] (Fin 26) [16, 24] =
     Inr [''A1'', ''A1'', ''A1'', ''A1'', ''A2'', ''A2'']"
    by (simp add: pick_defs)
qed

text \<open>
  C10. The destination label of index d on a plate shape [r, c] is the letter
  chr(65 + d div r) followed by the number d mod c (as long as the letter is one of
  A to Z). The index starts at 1 and grows by one at each rollover, so 23 wells of 10 nl
  with max_vol_per_well = 5 reach d = 24 on the default shape [16, 24], and the last
  destination is B0, a label with column number 0.
\<close>

theorem dest_label_column_zero:
  "destination_wells
       [[Fin 10, Fin 10, Fin 10, Fin 10, Fin 10, Fin 10, Fin 10, Fin 10,
         Fin 10, Fin 10, Fin 10, Fin 10, Fin 10, Fin 10, Fin 10, Fin 10,
         Fin 10, Fin 10, Fin 10, Fin 10, Fin 10, Fin 10, Fin 10]] (Fin 5) [16, 24] =
     Inr [''A2'', ''A3'', ''A4'', ''A5'', ''A6'', ''A7'', ''A8'', ''A9'',
          ''A10'', ''A11'', ''A12'', ''A13'', ''A14'', ''A15'', ''B16'',
          ''B17'', ''B18'', ''B19'', ''B20'', ''B21'', ''B22'', ''B23'', ''B0'']
   \<and> dest_well 24 [16, 24] = Inr ''B0''
   \<and> (\<forall>d r c. r \<noteq> 0 \<and> c \<noteq> 0 \<and> 0 \<le> d div r \<and> d div r < 26 \<longrightarrow>
        dest_well d [r, c] = Inr (char_of (65 + d div r) # str_int (d mod c)))"
proof (intro conjI allI impI)
  show "destination_wells
       [[Fin 10, Fin 10, Fin 10, Fin 10, Fin 10, Fin 10, Fin 10, Fin 10,
         Fin 10, Fin 10, Fin 10, Fin 10, Fin 10, Fin 10, Fin 10, Fin 10,
         Fin 10, Fin 10, Fin 10, Fin 10, Fin 10, Fin 10, Fin 10]] (Fin 5) [16, 24] =
     Inr [''A2'', ''A3'', ''A4'', ''A5'', ''A6'', ''A7'', ''A8'', ''A9'',
          ''A10'', ''A11'', ''A12'', ''A13'', ''A14'', ''A15'', ''B16'',
          ''B17'', ''B18'', ''B19'', ''B20'', ''B21'', ''B22'', ''B23'', ''B0'']"
    by (simp add: pick_defs)
  show "dest_well 24 [16, 24] = Inr ''B0''"
    by (simp add: pick_defs)
  show "dest_well d [r, c] = Inr (char_of (65 + d div r) # str_int (d mod c))"
    if "r \<noteq> 0 \<and> c \<noteq> 0 \<and> 0 \<le> d div r \<and> d div r < 26" for d r c
    using that by (simp add: dest_well_label)
qed

theorem dest_label_column_zero_witness:
  "(16::int) \<noteq> 0 \<and> (24::int) \<noteq> 0 \<and> (0::int) \<le> 48 div 16 \<and> (48::int) div 16 < 26
   \<and> dest_well 48 [16, 24] = Inr ''D0''"
proof -
  have h: "(16::int) \<noteq> 0 \<and> (24::int) \<noteq> 0 \<and> (0::int) \<le> 48 div 16 \<and> (48::int) div 16 < 26"
    by simp
  from dest_label_column_zero have
    "\<forall>d r c. r \<noteq> 0 \<and> c \<noteq> 0 \<and> 0 \<le> d div r \<and> d div r < 26 \<longrightarrow>
        dest_well d [r, c] = Inr (char_of (65 + d div r) # str_int (d mod c))"
    by blast
  from this h have
    "dest_well 48 [16, 24] = Inr (char_of (65 + (48::int) div 16) # str_int (48 mod 24))"
    by blast
  with h show ?thesis
    by (simp add: str_int_def str_nat.simps digit_def char_of_def)
qed



subsection \<open>Arithmetic with the special values\<close>

lemma fmul_NaN_right [simp]: "fmul x NaN = NaN"
  by (cases x) simp_all

lemma fdiv_NaN_right [simp]: "fdiv x NaN = NaN"
  by (cases x) simp_all

lemma fadd_NaN_right [simp]: "fadd x NaN = NaN"
  by (cases x) simp_all


subsection \<open>Element-wise form of the qPCR pooling\<close>

lemma map2_same: "map2 f (map g xs) (map h xs) = map (\<lambda>x. f (g x) (h x)) xs"
  by (induction xs) simp_all







subsection \<open>No well above the threshold\<close>







subsection \<open>Sign and missing values of the volumes\<close>










subsection \<open>Equal-volume pooling\<close>








subsection \<open>Conservation of the pooled quantity\<close>


lemma fsum_Fin: "fsum (map (\<lambda>x. Fin (g x)) xs) = Fin (sum_list (map g xs))"
  by (induction xs) simp_all







subsection \<open>The pool estimate\<close>

lemma stretch_id: "rectangular a \<Longrightarrow> stretch (nrows a) (ncols a) a = a"
  by (simp add: stretch_def rectangular_def nrows_def list_all_iff map_idI)

lemma same_shape_dims:
  "same_shape a b \<Longrightarrow> nrows a = nrows b \<and> ncols a = ncols b"
  by (cases a; cases b) (auto simp: same_shape_def nrows_def ncols_def dest: map_eq_imp_length_eq)

lemma same_shape_rectangular: "same_shape a b \<Longrightarrow> rectangular a \<Longrightarrow> rectangular b"
proof -
  assume s: "same_shape a b" and r: "rectangular a"
  from s have c: "ncols a = ncols b" by (simp add: same_shape_dims)
  from r have "list_all (\<lambda>n. n = ncols a) (map length a)"
    by (simp add: rectangular_def list_all_iff)
  with s c have "list_all (\<lambda>n. n = ncols b) (map length b)"
    by (simp add: same_shape_def)
  then show "rectangular b" by (simp add: rectangular_def list_all_iff)
qed

lemma np_multiply_same_shape:
  assumes "same_shape a b" "rectangular a"
  shows "np_multiply a b = Inr (map2 (map2 fmul) a b)"
proof -
  from assms have rb: "rectangular b" by (rule same_shape_rectangular)
  from assms(1) have d: "nrows a = nrows b" "ncols a = ncols b"
    by (simp_all add: same_shape_dims)
  show ?thesis
    using stretch_id [OF assms(2)] stretch_id [OF rb]
    by (simp add: np_multiply_def bc_dim_def d)
qed

lemma concat_map2:
  "map length a = map length b \<Longrightarrow>
   concat (map2 (map2 f) a b) = map2 f (concat a) (concat b)"
proof (induction a arbitrary: b)
  case Nil
  then show ?case by simp
next
  case (Cons r a)
  then obtain r' b' where b: "b = r' # b'" "length r = length r'" "map length a = map length b'"
    by (cases b) auto
  with Cons.IH [OF b(3)] show ?case by simp
qed

lemma fadd_scale:
  "0 < s \<Longrightarrow> fmul (fadd a b) (Fin s) = fadd (fmul a (Fin s)) (fmul b (Fin s))"
  by (cases a; cases b) (simp_all add: algebra_simps)

lemma fsum_scale:
  "0 < s \<Longrightarrow> fsum (map (\<lambda>x. fmul x (Fin s)) xs) = fmul (fsum xs) (Fin s)"
  by (induction xs) (simp_all add: fadd_scale)

lemma fdiv_scale:
  "0 < s \<Longrightarrow> fdiv (fmul n (Fin s)) (fmul d (Fin s)) = fdiv n d"
  by (cases n; cases d) (auto simp: zero_less_mult_iff mult_less_0_iff zero_le_mult_iff)

lemma estimate_formula:
  assumes "same_shape sample_vols sample_concs" "rectangular sample_vols"
  shows "estimate_pool_conc_vol sample_vols sample_concs =
           Inr (fdiv (fsum (map2 fmul (concat sample_concs) (concat sample_vols)))
                     (fsum (concat sample_vols)),
                fsum (concat sample_vols))"
proof -
  from assms(1) have s: "same_shape sample_concs sample_vols"
    by (simp add: same_shape_def)
  from s assms have r: "rectangular sample_concs"
    using same_shape_rectangular by blast
  have m: "np_multiply sample_concs sample_vols = Inr (map2 (map2 fmul) sample_concs sample_vols)"
    using s r by (rule np_multiply_same_shape)
  have c: "concat (map2 (map2 fmul) sample_concs sample_vols) =
           map2 fmul (concat sample_concs) (concat sample_vols)"
    using s by (simp add: same_shape_def concat_map2)
  have p: "(0::real) < 1 / 10 ^ 9" by simp
  have t: "concat (scalar_mul k a) = map (\<lambda>x. fmul x k) (concat a)" for k a
    by (simp add: scalar_mul_def map_concat)
  show ?thesis
    unfolding estimate_pool_conc_vol_def m sum.case Let_def t c
      fsum_scale [OF p] fdiv_scale [OF p]
    by (rule refl)
qed

lemma rectangular_map: "rectangular a \<Longrightarrow> rectangular (map (map g) a)"
  by (cases a) (auto simp: rectangular_def ncols_def list_all_iff)

lemma fsum_const: "fsum (map (\<lambda>_. Fin c) xs) = Fin (real (length xs) * c)"
  by (simp only: fsum_Fin sum_list_triv)

text \<open>
  C5. For volumes and concentrations of one shape the function returns the sum of the
  volumes and the volume-weighted mean concentration, sum(v * c) / sum(v): the two
  factors 10**-9 cancel. Hence N >= 1 wells, all of concentration K and all of the same
  positive volume, give the pool concentration K whatever N is.
\<close>

theorem pool_estimate:
  "(same_shape sample_vols sample_concs \<and> rectangular sample_vols \<longrightarrow>
      estimate_pool_conc_vol sample_vols sample_concs =
        Inr (fdiv (fsum (map2 fmul (concat sample_concs) (concat sample_vols)))
                  (fsum (concat sample_vols)),
             fsum (concat sample_vols)))
   \<and> (rectangular wells \<and> size_of wells \<noteq> 0 \<and> 0 < v \<longrightarrow>
      estimate_pool_conc_vol (map (map (\<lambda>_. Fin v)) wells) (map (map (\<lambda>_. Fin k)) wells) =
        Inr (Fin k, Fin (real (size_of wells) * v)))"
proof (intro conjI impI)
  assume "same_shape sample_vols sample_concs \<and> rectangular sample_vols"
  then show "estimate_pool_conc_vol sample_vols sample_concs =
        Inr (fdiv (fsum (map2 fmul (concat sample_concs) (concat sample_vols)))
                  (fsum (concat sample_vols)),
             fsum (concat sample_vols))"
    by (simp add: estimate_formula)
next
  assume h: "rectangular wells \<and> size_of wells \<noteq> 0 \<and> 0 < v"
  let ?vols = "map (map (\<lambda>_. Fin v)) wells" and ?concs = "map (map (\<lambda>_. Fin k)) wells"
  have s: "same_shape ?vols ?concs" by (simp add: same_shape_def)
  have r: "rectangular ?vols" using h by (simp add: rectangular_map)
  have c: "concat ?vols = map (\<lambda>_. Fin v) (concat wells)"
          "concat ?concs = map (\<lambda>_. Fin k) (concat wells)"
    by (simp_all add: map_concat)
  have p: "map2 fmul (map (\<lambda>_. Fin k) (concat wells)) (map (\<lambda>_. Fin v) (concat wells)) =
           map (\<lambda>_. Fin (k * v)) (concat wells)"
    by (simp add: map2_same)
  have len: "length (concat wells) = size_of wells" by (simp add: size_of_def)
  from h have n: "real (size_of wells) * v \<noteq> 0" by simp
  then have q: "real (size_of wells) * (k * v) / (real (size_of wells) * v) = k"
    by (simp add: field_simps)
  show "estimate_pool_conc_vol ?vols ?concs = Inr (Fin k, Fin (real (size_of wells) * v))"
    unfolding estimate_formula [OF s r] c p fsum_const len
    using n q by (simp del: mult_eq_0_iff times_divide_eq_right)
qed

theorem pool_estimate_witness:
  "same_shape [[Fin 1, Fin 3]] [[Fin 10, Fin 20]] \<and> rectangular [[Fin 1, Fin 3]]
   \<and> estimate_pool_conc_vol [[Fin 1, Fin 3]] [[Fin 10, Fin 20]] = Inr (Fin (35 / 2), Fin 4)
   \<and> rectangular [[NaN, NaN, NaN], [NaN, NaN, NaN]]
   \<and> size_of [[NaN, NaN, NaN], [NaN, NaN, NaN]] \<noteq> 0 \<and> (0::real) < 2
   \<and> estimate_pool_conc_vol [[Fin 2, Fin 2, Fin 2], [Fin 2, Fin 2, Fin 2]]
        [[Fin 7, Fin 7, Fin 7], [Fin 7, Fin 7, Fin 7]] = Inr (Fin 7, Fin 12)"
proof -
  have h1: "same_shape [[Fin 1, Fin 3]] [[Fin 10, Fin 20]] \<and> rectangular [[Fin 1, Fin 3]]"
    by (simp add: same_shape_def rectangular_def ncols_def)
  have h2: "rectangular [[NaN, NaN, NaN], [NaN, NaN, NaN]]
     \<and> size_of [[NaN, NaN, NaN], [NaN, NaN, NaN]] \<noteq> 0 \<and> (0::real) < 2"
    by (simp add: rectangular_def ncols_def size_of_def)
  from pool_estimate [of "[[Fin 1, Fin 3]]" "[[Fin 10, Fin 20]]"] h1
  have a: "estimate_pool_conc_vol [[Fin 1, Fin 3]] [[Fin 10, Fin 20]] = Inr (Fin (35 / 2), Fin 4)"
    by simp
  from pool_estimate [of "[]" "[]" "[[NaN, NaN, NaN], [NaN, NaN, NaN]]" 2 7] h2
  have b: "estimate_pool_conc_vol [[Fin 2, Fin 2, Fin 2], [Fin 2, Fin 2, Fin 2]]
        [[Fin 7, Fin 7, Fin 7], [Fin 7, Fin 7, Fin 7]] = Inr (Fin 7, Fin 12)"
    by (simp add: size_of_def)
  from h1 h2 a b show ?thesis by blast
qed









text \<open>
  The hypothesis on the sign is needed: volumes of both signs that cancel give an
  infinite concentration.
\<close>

lemma signed_volumes_pool: "estimate_pool_conc_vol [[Fin 1, Fin (- 1)]] [[Fin 2, Fin 1]] = Inr (PInf, Fin 0)"
  by (simp add: estimate_pool_conc_vol_def np_multiply_def bc_dim_def nrows_def ncols_def stretch_def scalar_mul_def)


end
